theory Spec2Isabelle
  imports Main "HOL-Library.List_Lexorder" "HOL-Library.Char_ord"
begin

section \<open>The Dockerfile generator \<open>scripts/gendockerfile.go\<close>\<close>

text \<open>
  Go strings are byte sequences, so an import path is a \<^typ>\<open>string\<close> (a list of
  8-bit characters).  With the two library theories imported above, \<open>\<le>\<close> on
  \<^typ>\<open>string\<close> is the bytewise lexicographic order in which a proper prefix comes
  first: the order of Go's \<open><\<close> on strings, which \<open>sort.Strings\<close> uses.
\<close>

subsection \<open>Classification of one import path\<close>

text \<open>
  \<open>strings.IndexRune(s, r)\<close> for an ASCII rune \<open>r\<close>: the index of the first byte of \<open>s\<close>
  equal to \<open>r\<close>, or \<open>-1\<close> when there is none.
\<close>

fun IndexRune :: "string \<Rightarrow> char \<Rightarrow> int" where
  "IndexRune [] c = - 1"
| "IndexRune (x # xs) c =
     (if x = c then 0
      else (let i = IndexRune xs c in if i = - 1 then - 1 else i + 1))"

text \<open>
  \<^verbatim>\<open>
  func isExternal(importPath string) bool {
      r := strings.IndexRune(importPath, '/')
      if r == -1 {
          return false
      }
      return strings.IndexRune(importPath[:r], '.') != -1
  }
  \<close>
\<close>

definition isExternal :: "string \<Rightarrow> bool" where
  "isExternal importPath =
     (let r = IndexRune importPath (CHR ''/'') in
      if r = - 1 then False
      else IndexRune (take (nat r) importPath) (CHR ''.'') \<noteq> - 1)"

subsection \<open>Package records and the classification table\<close>

text \<open>
  The fields of \<open>build.Package\<close> that \<open>main\<close> reads.  A field missing from the JSON
  record is the empty string or the empty list.
\<close>

record Package =
  ImportPath :: string
  Imports :: "string list"
  TestImports :: "string list"
  XTestImports :: "string list"

text \<open>The variable \<open>externalImports\<close>, a \<open>map[string]bool\<close>.\<close>

type_synonym table = "string \<rightharpoonup> bool"

text \<open>
  The inner loop of \<open>main\<close>:
  \<^verbatim>\<open>
  for _, importPath := range imports {
      if _, ok := externalImports[importPath]; ok {
          continue
      }
      externalImports[importPath] = isExternal(importPath)
  }
  \<close>
\<close>

fun scan_imports :: "table \<Rightarrow> string list \<Rightarrow> table" where
  "scan_imports externalImports [] = externalImports"
| "scan_imports externalImports (importPath # imports) =
     (case externalImports importPath of
        Some ok \<Rightarrow> scan_imports externalImports imports
      | None \<Rightarrow>
          scan_imports (externalImports(importPath \<mapsto> isExternal importPath)) imports)"

text \<open>
  The body of the decoding loop for one decoded record:
  \<^verbatim>\<open>
  externalImports[pkg.ImportPath] = false
  imports := append(pkg.Imports, pkg.TestImports...)
  imports = append(imports, pkg.XTestImports...)
  for _, importPath := range imports { ... }
  \<close>
\<close>

definition record_package :: "table \<Rightarrow> Package \<Rightarrow> table" where
  "record_package externalImports pkg =
     (let externalImports' = externalImports(ImportPath pkg \<mapsto> False);
          imports = Imports pkg @ TestImports pkg;
          imports' = imports @ XTestImports pkg
      in scan_imports externalImports' imports')"

text \<open>
  The ways in which the run ends in \<open>log.Fatal\<close>, one for each call of it in \<open>main\<close>.
\<close>

datatype failure =
  PipeError | StartError | DecodeError | CreateError | WriteError | DiffError

text \<open>
  What \<open>decoder.Decode\<close> yields on the standard output of \<open>go list -json\<close>: a finite
  sequence of package records, and then either \<open>io.EOF\<close> or another error (a
  truncated or invalid record).
\<close>

datatype stream_end = EndOfStream | Malformed

text \<open>
  \<^verbatim>\<open>
  for {
      var pkg build.Package
      if err := decoder.Decode(&pkg); err != nil {
          if err != io.EOF {
              log.Fatal(err)
          }
          break
      }
      ...
  }
  \<close>
\<close>

fun decode_loop :: "table \<Rightarrow> Package list \<Rightarrow> stream_end \<Rightarrow> failure + table" where
  "decode_loop externalImports [] EndOfStream = Inr externalImports"
| "decode_loop externalImports [] Malformed = Inl DecodeError"
| "decode_loop externalImports (pkg # rest) e =
     decode_loop (record_package externalImports pkg) rest e"

subsection \<open>The list of external imports\<close>

text \<open>
  Go leaves the order in which \<open>range\<close> visits the keys of a map unspecified; it visits
  every key once.  The order that the runtime happens to choose is the argument
  \<open>order\<close>, and \<open>enumerates order m\<close> says that it is an order of the keys of \<open>m\<close>.
\<close>

definition enumerates :: "string list \<Rightarrow> table \<Rightarrow> bool" where
  "enumerates order m \<longleftrightarrow> distinct order \<and> set order = dom m"

text \<open>
  \<^verbatim>\<open>
  for importPath, isExternal := range externalImports {
      if isExternal {
          data.Imports = append(data.Imports, importPath)
      }
  }
  sort.Strings(data.Imports)
  \<close>
\<close>

fun range_loop :: "table \<Rightarrow> string list \<Rightarrow> string list \<Rightarrow> string list" where
  "range_loop externalImports [] dataImports = dataImports"
| "range_loop externalImports (importPath # order) dataImports =
     (if externalImports importPath = Some True
      then range_loop externalImports order (dataImports @ [importPath])
      else range_loop externalImports order dataImports)"

definition data_Imports :: "table \<Rightarrow> string list \<Rightarrow> string list" where
  "data_Imports externalImports order = sort (range_loop externalImports order [])"

subsection \<open>The template\<close>

text \<open>
  \<^verbatim>\<open>
  var dockerfileTemplate = template.Must(template.New("Dockerfile").Parse(`
  # Code generated by gendockerfile. DO NOT EDIT.
  FROM golang:latest
  WORKDIR /go/src/go.elastic.co/apm
  {{range .Imports}}RUN go get -v {{.}}
  {{end}}
  ADD . /go/src/go.elastic.co/apm
  `[1:]))
  \<close>
  The slice \<open>[1:]\<close> drops the newline that follows the opening back quote.  The parsed
  template is a text node, a \<open>range\<close> node over \<open>.Imports\<close> whose body is a text, the
  cursor \<open>{{.}}\<close> and a newline, and a last text node that begins with the newline
  following \<open>{{end}}\<close>.
\<close>

datatype piece = Lit string | Dot

datatype node = Text string | RangeImports "piece list"

definition dockerfileTemplate :: "node list" where
  "dockerfileTemplate =
     [Text (''# Code generated by gendockerfile. DO NOT EDIT.\<newline>'' @
            ''FROM golang:latest\<newline>'' @
            ''WORKDIR /go/src/go.elastic.co/apm\<newline>''),
      RangeImports [Lit ''RUN go get -v '', Dot, Lit ''\<newline>''],
      Text (''\<newline>'' @ ''ADD . /go/src/go.elastic.co/apm\<newline>'')]"

fun exec_piece :: "string \<Rightarrow> piece \<Rightarrow> string" where
  "exec_piece dot (Lit s) = s"
| "exec_piece dot Dot = dot"

fun exec_node :: "string list \<Rightarrow> node \<Rightarrow> string" where
  "exec_node imports (Text s) = s"
| "exec_node imports (RangeImports body) =
     concat (map (\<lambda>dot. concat (map (exec_piece dot) body)) imports)"

text \<open>\<open>dockerfileTemplate.Execute(out, &data)\<close>: the bytes written to \<open>out\<close>.\<close>

definition Execute :: "node list \<Rightarrow> string list \<Rightarrow> string" where
  "Execute tmpl imports = concat (map (exec_node imports) tmpl)"

subsection \<open>The run\<close>

text \<open>
  What the run meets outside the program: the outcome of starting \<open>go list\<close> and, when
  it started, the records and the end of its output; the order in which the runtime
  visits the keys of the table; the content of the file at \<open>outFile\<close> (\<open>None\<close> when
  there is no such file); whether \<open>os.Create\<close> fails; after how many bytes a write to the
  file fails, if it does; and the \<open>diff\<close> utility, which is given the file at \<open>outFile\<close>
  and the buffer on its standard input and yields its exit status and what it writes
  to standard output.  The utility only reads its two inputs.

  The flags \<open>-base\<close> and \<open>-o\<close> only decide which directories \<open>go list\<close> is asked
  about and which path \<open>outFile\<close> is; the environment holds what is found there.  The
  flag \<open>-d\<close> is the argument \<open>diffFlag\<close> of the run.
\<close>

datatype go_list = PipeFailed | StartFailed | Started "Package list" stream_end

record env =
  go_list_cmd :: go_list
  map_order :: "string list"
  out_file :: "string option"
  create_fails :: bool
  write_fails :: "nat option"
  diff_cmd :: "string option \<Rightarrow> string \<Rightarrow> nat \<times> string"

datatype exit_status = Exit0 | Fatal failure

record outcome =
  status :: exit_status
  out_file_after :: "string option"
  stdout :: string

text \<open>
  \<^verbatim>\<open>
  var buf bytes.Buffer
  var out io.Writer = &buf
  outFile := filepath.Join( *baseFlag, "scripts", *outFlag)
  if !*diffFlag {
      f, err := os.Create(outFile)
      if err != nil { log.Fatal(err) }
      defer f.Close()
      out = f
  }
  if err := dockerfileTemplate.Execute(out, &data); err != nil { log.Fatal(err) }
  if *diffFlag {
      cmd := exec.Command("diff", "-c", outFile, "-")
      cmd.Stdin = &buf
      cmd.Stdout = os.Stdout
      cmd.Stderr = os.Stderr
      if err := cmd.Run(); err != nil { log.Fatal(err) }
  }
  \<close>
  Writing to a \<open>bytes.Buffer\<close> does not fail, and the template cannot fail on a list of
  strings, so in diff mode \<open>Execute\<close> returns no error.
\<close>

definition write_or_diff :: "bool \<Rightarrow> env \<Rightarrow> string list \<Rightarrow> outcome" where
  "write_or_diff diffFlag e dataImports =
     (let rendered = Execute dockerfileTemplate dataImports in
      if \<not> diffFlag then
        (if create_fails e
         then \<lparr>status = Fatal CreateError, out_file_after = out_file e, stdout = []\<rparr>
         else (case write_fails e of
                 Some n \<Rightarrow>
                   \<lparr>status = Fatal WriteError, out_file_after = Some (take n rendered),
                    stdout = []\<rparr>
               | None \<Rightarrow>
                   \<lparr>status = Exit0, out_file_after = Some rendered, stdout = []\<rparr>))
      else
        (let (code, report) = diff_cmd e (out_file e) rendered in
         if code \<noteq> 0
         then \<lparr>status = Fatal DiffError, out_file_after = out_file e, stdout = report\<rparr>
         else \<lparr>status = Exit0, out_file_after = out_file e, stdout = report\<rparr>))"

text \<open>
  \<open>main\<close>, from the start of \<open>go list\<close> to the exit of the process.  \<open>log.Fatal\<close> ends
  the process at once, so nothing after it runs.
\<close>

definition main :: "bool \<Rightarrow> env \<Rightarrow> outcome" where
  "main diffFlag e =
     (case go_list_cmd e of
        PipeFailed \<Rightarrow>
          \<lparr>status = Fatal PipeError, out_file_after = out_file e, stdout = []\<rparr>
      | StartFailed \<Rightarrow>
          \<lparr>status = Fatal StartError, out_file_after = out_file e, stdout = []\<rparr>
      | Started records fin \<Rightarrow>
          (case decode_loop Map.empty records fin of
             Inl err \<Rightarrow> \<lparr>status = Fatal err, out_file_after = out_file e, stdout = []\<rparr>
           | Inr externalImports \<Rightarrow>
               write_or_diff diffFlag e (data_Imports externalImports (map_order e))))"

subsection \<open>Notions used to state the properties\<close>

text \<open>The import lists of a record: build-time, then test-time of both kinds.\<close>

definition imports_of :: "Package \<Rightarrow> string list" where
  "imports_of pkg = Imports pkg @ TestImports pkg @ XTestImports pkg"

text \<open>
  The paths that occur in an import list of some record, pass \<open>isExternal\<close> and are
  not the own import path of any record.
\<close>

definition external_paths :: "Package list \<Rightarrow> string set" where
  "external_paths pkgs =
     {p \<in> \<Union> (set ` set (map imports_of pkgs)).
        isExternal p \<and> p \<notin> set (map ImportPath pkgs)}"

text \<open>
  The order in which the run visits the table is an order of the keys of the table
  that the run has built.
\<close>

definition valid_order :: "env \<Rightarrow> bool" where
  "valid_order e =
     (case go_list_cmd e of
        Started pkgs fin \<Rightarrow>
          (case decode_loop Map.empty pkgs fin of
             Inr externalImports \<Rightarrow> enumerates (map_order e) externalImports
           | Inl err \<Rightarrow> True)
      | _ \<Rightarrow> True)"

text \<open>
  What is assumed of the \<open>diff\<close> utility: it exits with status 0 exactly when the file
  exists and has the content of its standard input; it then prints nothing; and it
  prints something when the file exists with another content.
\<close>

definition diff_contract :: "(string option \<Rightarrow> string \<Rightarrow> nat \<times> string) \<Rightarrow> bool" where
  "diff_contract d \<longleftrightarrow>
     (\<forall>old new.
        (fst (d old new) = 0 \<longleftrightarrow> old = Some new) \<and>
        (old = Some new \<longrightarrow> snd (d old new) = []) \<and>
        (old \<noteq> None \<and> old \<noteq> Some new \<longrightarrow> snd (d old new) \<noteq> []))"

section \<open>Properties of the classification\<close>

lemma IndexRune_ge: "- 1 \<le> IndexRune s c"
  by (induction s) (auto simp: Let_def)

lemma IndexRune_absent: "IndexRune s c = - 1 \<longleftrightarrow> c \<notin> set s"
proof (induction s)
  case Nil
  show ?case by simp
next
  case (Cons x xs)
  have "- 1 \<le> IndexRune xs c" by (rule IndexRune_ge)
  with Cons show ?case by (auto simp: Let_def)
qed

lemma IndexRune_takeWhile:
  "c \<in> set s \<Longrightarrow> take (nat (IndexRune s c)) s = takeWhile (\<lambda>x. x \<noteq> c) s"
proof (induction s)
  case Nil
  then show ?case by simp
next
  case (Cons x xs)
  show ?case
  proof (cases "x = c")
    case True
    then show ?thesis by simp
  next
    case False
    with Cons.prems have in_xs: "c \<in> set xs" by simp
    then have "IndexRune xs c \<noteq> - 1" by (simp add: IndexRune_absent)
    moreover have "- 1 \<le> IndexRune xs c" by (rule IndexRune_ge)
    ultimately have "0 \<le> IndexRune xs c" by linarith
    then have "nat (IndexRune xs c + 1) = Suc (nat (IndexRune xs c))" by linarith
    with False in_xs Cons.IH show ?thesis
      by (simp add: Let_def IndexRune_absent)
  qed
qed

text \<open>
  C1: \<open>isExternal\<close> holds of an import path exactly when the path contains a \<open>/\<close> and
  the part of the path before its first \<open>/\<close> contains a \<open>.\<close>; in particular a path
  with no \<open>/\<close> is internal.
\<close>

theorem isExternal_iff:
  "(isExternal p \<longleftrightarrow>
      CHR ''/'' \<in> set p \<and> CHR ''.'' \<in> set (takeWhile (\<lambda>c. c \<noteq> CHR ''/'') p)) \<and>
   (CHR ''/'' \<notin> set p \<longrightarrow> \<not> isExternal p)"
proof (cases "CHR ''/'' \<in> set p")
  case True
  then have "IndexRune p (CHR ''/'') \<noteq> - 1" by (simp add: IndexRune_absent)
  with True show ?thesis
    by (simp add: isExternal_def Let_def IndexRune_absent IndexRune_takeWhile)
next
  case False
  then have "IndexRune p (CHR ''/'') = - 1" by (simp add: IndexRune_absent)
  with False show ?thesis by (simp add: isExternal_def)
qed

theorem isExternal_iff_witness:
  "isExternal ''golang.org/x/tools'' \<and> CHR ''/'' \<notin> set ''fmt'' \<and> \<not> isExternal ''fmt'' \<and>
   CHR ''/'' \<in> set ''net/http.x'' \<and> \<not> isExternal ''net/http.x''"
  using isExternal_iff [of "''golang.org/x/tools''"] isExternal_iff [of "''fmt''"]
    isExternal_iff [of "''net/http.x''"]
  by simp

section \<open>The table and the list it yields\<close>

text \<open>
  What the inner loop and the loop body leave at a path \<open>p\<close> of the table.
\<close>

lemma scan_imports_apply:
  "scan_imports t is p =
     (case t p of Some b \<Rightarrow> Some b
      | None \<Rightarrow> if p \<in> set is then Some (isExternal p) else None)"
  by (induction "is" arbitrary: t) (auto split: option.splits)

lemma record_package_apply:
  "record_package t pkg p =
     (if p = ImportPath pkg then Some False
      else case t p of Some b \<Rightarrow> Some b
           | None \<Rightarrow> if p \<in> set (imports_of pkg) then Some (isExternal p) else None)"
  by (simp add: record_package_def Let_def scan_imports_apply imports_of_def)

lemma dom_record_package:
  "dom (record_package t pkg) = insert (ImportPath pkg) (dom t \<union> set (imports_of pkg))"
  by (auto simp: record_package_apply dom_def split: if_splits option.splits)

lemma decode_loop_EndOfStream:
  "decode_loop t pkgs EndOfStream = Inr (foldl record_package t pkgs)"
  by (induction pkgs arbitrary: t) simp_all

lemma decode_loop_Malformed: "decode_loop t pkgs Malformed = Inl DecodeError"
  by (induction pkgs arbitrary: t) simp_all

lemma foldl_record_package_apply:
  "foldl record_package t pkgs p =
     (if p \<in> ImportPath ` set pkgs then Some False
      else case t p of Some b \<Rightarrow> Some b
           | None \<Rightarrow>
               if p \<in> (\<Union>pkg \<in> set pkgs. set (imports_of pkg)) then Some (isExternal p)
               else None)"
proof (induction pkgs arbitrary: t)
  case Nil
  show ?case by (simp split: option.splits)
next
  case (Cons pkg pkgs)
  have "foldl record_package t (pkg # pkgs) p =
      foldl record_package (record_package t pkg) pkgs p"
    by simp
  also have "\<dots> =
     (if p \<in> ImportPath ` set pkgs then Some False
      else case record_package t pkg p of Some b \<Rightarrow> Some b
           | None \<Rightarrow>
               if p \<in> (\<Union>pkg \<in> set pkgs. set (imports_of pkg)) then Some (isExternal p)
               else None)"
    by (rule Cons.IH)
  also have "\<dots> =
     (if p \<in> ImportPath ` set (pkg # pkgs) then Some False
      else case t p of Some b \<Rightarrow> Some b
           | None \<Rightarrow>
               if p \<in> (\<Union>pkg \<in> set (pkg # pkgs). set (imports_of pkg))
               then Some (isExternal p) else None)"
    unfolding record_package_apply by (auto split: option.splits)
  finally show ?case .
qed

lemma table_True_set:
  "{p. foldl record_package Map.empty pkgs p = Some True} = external_paths pkgs"
  by (auto simp: foldl_record_package_apply external_paths_def)

lemma range_loop_filter:
  "range_loop m order acc = acc @ filter (\<lambda>p. m p = Some True) order"
  by (induction order arbitrary: acc) simp_all

lemma set_data_Imports:
  "enumerates order m \<Longrightarrow> set (data_Imports m order) = {p. m p = Some True}"
  by (auto simp: data_Imports_def range_loop_filter enumerates_def)

lemma distinct_data_Imports:
  "enumerates order m \<Longrightarrow> distinct (data_Imports m order)"
  by (simp add: data_Imports_def range_loop_filter enumerates_def)

lemma sorted_data_Imports: "sorted (data_Imports m order)"
  by (simp add: data_Imports_def)

lemma data_Imports_eq:
  assumes "enumerates order m"
  shows "data_Imports m order = sorted_list_of_set {p. m p = Some True}"
proof -
  have "sorted_list_of_set (set (data_Imports m order)) = data_Imports m order"
    using assms
    by (intro sorted_distinct_set_unique)
      (simp_all add: distinct_data_Imports sorted_data_Imports)
  then show ?thesis using assms by (simp add: set_data_Imports)
qed

lemma external_paths_two:
  assumes "set (imports_of A) = {x, z}" and "set (imports_of B) = {x, y}"
    and "isExternal x" and "isExternal y" and "\<not> isExternal z"
    and "ImportPath A \<noteq> x" and "ImportPath A \<noteq> y"
    and "ImportPath B \<noteq> x" and "ImportPath B \<noteq> y"
    and "set pkgs = {A, B}"
  shows "external_paths pkgs = {x, y}"
  unfolding external_paths_def set_map using assms by auto

section \<open>The classification table\<close>

text \<open>
  C2, as amended: an entry is never removed, and an occurrence of its path in an
  import list never changes it.  A record sets the entry of its own import path to
  \<open>false\<close>.  So after any further records an entry that was \<open>false\<close> is \<open>false\<close>,
  and an entry that was \<open>true\<close> is \<open>true\<close> exactly when none of these records has the
  path as its own import path.
\<close>

theorem entry_after_later_records:
  assumes "externalImports p = Some b"
  shows "scan_imports externalImports imports p = Some b \<and>
    (\<exists>t. decode_loop externalImports pkgs EndOfStream = Inr t \<and>
       t p = Some (b \<and> p \<notin> ImportPath ` set pkgs))"
  using assms
  by (simp add: scan_imports_apply decode_loop_EndOfStream foldl_record_package_apply)

theorem entry_after_later_records_witness:
  "[''apm'' \<mapsto> False, ''example.com/foo/bar'' \<mapsto> True] ''example.com/foo/bar'' = Some True \<and>
   scan_imports [''apm'' \<mapsto> False, ''example.com/foo/bar'' \<mapsto> True]
     [''example.com/foo/bar''] ''example.com/foo/bar'' = Some True \<and>
   decode_loop [''apm'' \<mapsto> False, ''example.com/foo/bar'' \<mapsto> True]
     [\<lparr>ImportPath = ''example.com/foo/bar'', Imports = [''fmt''], TestImports = [],
       XTestImports = []\<rparr>] EndOfStream =
     Inr (record_package [''apm'' \<mapsto> False, ''example.com/foo/bar'' \<mapsto> True]
       \<lparr>ImportPath = ''example.com/foo/bar'', Imports = [''fmt''], TestImports = [],
        XTestImports = []\<rparr>) \<and>
   record_package [''apm'' \<mapsto> False, ''example.com/foo/bar'' \<mapsto> True]
     \<lparr>ImportPath = ''example.com/foo/bar'', Imports = [''fmt''], TestImports = [],
      XTestImports = []\<rparr> ''example.com/foo/bar'' = Some False"
proof -
  let ?t = "[''apm'' \<mapsto> False, ''example.com/foo/bar'' \<mapsto> True]"
  let ?pkg = "\<lparr>ImportPath = ''example.com/foo/bar'', Imports = [''fmt''], TestImports = [],
      XTestImports = []\<rparr>"
  have h: "?t ''example.com/foo/bar'' = Some True" by simp
  from h entry_after_later_records
    [of ?t "''example.com/foo/bar''" True "[''example.com/foo/bar'']" "[?pkg]"]
  show ?thesis by simp
qed

text \<open>
  C2 as stated fails: \<open>example.com/foo/bar\<close> is entered as \<open>true\<close> when it is an
  import of the first record, and the second record, whose own import path it is,
  sets the entry to \<open>false\<close>.
\<close>

theorem entry_overwritten_counterexample:
  "record_package Map.empty
     \<lparr>ImportPath = ''apm'', Imports = [''example.com/foo/bar''], TestImports = [],
      XTestImports = []\<rparr> ''example.com/foo/bar'' = Some True \<and>
   record_package
     (record_package Map.empty
        \<lparr>ImportPath = ''apm'', Imports = [''example.com/foo/bar''], TestImports = [],
         XTestImports = []\<rparr>)
     \<lparr>ImportPath = ''example.com/foo/bar'', Imports = [], TestImports = [],
      XTestImports = []\<rparr> ''example.com/foo/bar'' = Some False"
  by (simp add: record_package_def isExternal_def)

section \<open>The list of external imports\<close>

text \<open>
  C3: when the stream ends in \<open>io.EOF\<close>, the list \<open>data.Imports\<close> that is rendered
  has no duplicates and is sorted in non-decreasing order, in whatever order the
  runtime visits the table.
\<close>

theorem external_list_distinct_sorted:
  "\<exists>t. decode_loop Map.empty pkgs EndOfStream = Inr t \<and>
     (\<forall>order. enumerates order t \<longrightarrow>
        distinct (data_Imports t order) \<and> sorted (data_Imports t order))"
  by (simp add: decode_loop_EndOfStream distinct_data_Imports sorted_data_Imports)

theorem external_list_distinct_sorted_witness:
  "enumerates [''fmt'', ''golang.org/x/tools'', ''apm'', ''example.com/foo/bar'']
     (record_package Map.empty
        \<lparr>ImportPath = ''apm'', Imports = [''golang.org/x/tools'', ''fmt''],
         TestImports = [''example.com/foo/bar''], XTestImports = []\<rparr>) \<and>
   distinct (data_Imports
     (record_package Map.empty
        \<lparr>ImportPath = ''apm'', Imports = [''golang.org/x/tools'', ''fmt''],
         TestImports = [''example.com/foo/bar''], XTestImports = []\<rparr>)
     [''fmt'', ''golang.org/x/tools'', ''apm'', ''example.com/foo/bar'']) \<and>
   sorted (data_Imports
     (record_package Map.empty
        \<lparr>ImportPath = ''apm'', Imports = [''golang.org/x/tools'', ''fmt''],
         TestImports = [''example.com/foo/bar''], XTestImports = []\<rparr>)
     [''fmt'', ''golang.org/x/tools'', ''apm'', ''example.com/foo/bar''])"
proof -
  let ?pkg = "\<lparr>ImportPath = ''apm'', Imports = [''golang.org/x/tools'', ''fmt''],
         TestImports = [''example.com/foo/bar''], XTestImports = []\<rparr>"
  let ?order = "[''fmt'', ''golang.org/x/tools'', ''apm'', ''example.com/foo/bar'']"
  obtain t where t: "decode_loop Map.empty [?pkg] EndOfStream = Inr t"
    and ok: "\<forall>order. enumerates order t \<longrightarrow>
        distinct (data_Imports t order) \<and> sorted (data_Imports t order)"
    using external_list_distinct_sorted [of "[?pkg]"] by blast
  from t have t_eq: "t = record_package Map.empty ?pkg" by simp
  have "dom (record_package Map.empty ?pkg) = set ?order"
    unfolding dom_record_package imports_of_def by auto
  then have "enumerates ?order (record_package Map.empty ?pkg)"
    unfolding enumerates_def by simp
  with ok t_eq show ?thesis by blast
qed

text \<open>
  C4, as amended: let the first segment of the import path of package A contain no
  \<open>.\<close>, let A import exactly \<open>example.com/foo/bar\<close> and \<open>fmt\<close>, let B import exactly
  \<open>example.com/foo/bar\<close> and \<open>golang.org/x/tools\<close>, and let the own import path of B
  be neither of these two.  Then for the stream of A and B, in either order, the list
  is \<open>[example.com/foo/bar, golang.org/x/tools]\<close>, and \<open>fmt\<close> is not in it.
\<close>

theorem example_external_list:
  assumes A_path: "CHR ''.'' \<notin> set (takeWhile (\<lambda>c. c \<noteq> CHR ''/'') (ImportPath A))"
    and A_imports: "set (imports_of A) = {''example.com/foo/bar'', ''fmt''}"
    and B_imports: "set (imports_of B) = {''example.com/foo/bar'', ''golang.org/x/tools''}"
    and B_path: "ImportPath B \<noteq> ''example.com/foo/bar''"
      "ImportPath B \<noteq> ''golang.org/x/tools''"
    and pkgs: "pkgs = [A, B] \<or> pkgs = [B, A]"
  shows "\<exists>t. decode_loop Map.empty pkgs EndOfStream = Inr t \<and>
     (\<forall>order. enumerates order t \<longrightarrow>
        data_Imports t order = [''example.com/foo/bar'', ''golang.org/x/tools''] \<and>
        ''fmt'' \<notin> set (data_Imports t order))"
proof -
  have ext: "isExternal ''example.com/foo/bar''" "isExternal ''golang.org/x/tools''"
    "\<not> isExternal ''fmt''"
    by (simp_all add: isExternal_def)
  have A_int: "\<not> isExternal (ImportPath A)"
  proof
    assume "isExternal (ImportPath A)"
    then have "CHR ''.'' \<in> set (takeWhile (\<lambda>c. c \<noteq> CHR ''/'') (ImportPath A))"
      by (simp add: isExternal_def Let_def IndexRune_absent IndexRune_takeWhile
          split: if_splits)
    with A_path show False by simp
  qed
  have A_ne: "ImportPath A \<noteq> ''example.com/foo/bar''"
    "ImportPath A \<noteq> ''golang.org/x/tools''"
    using A_int ext(1,2) by metis+
  have set_pkgs: "set pkgs = {A, B}" using pkgs by auto
  have "external_paths pkgs = {''example.com/foo/bar'', ''golang.org/x/tools''}"
    using A_imports B_imports ext A_ne B_path set_pkgs by (rule external_paths_two)
  then have "sorted_list_of_set (external_paths pkgs) =
      sorted_list_of_set (set [''example.com/foo/bar'', ''golang.org/x/tools''])"
    by simp
  also have "\<dots> = [''example.com/foo/bar'', ''golang.org/x/tools'']"
    unfolding sorted_list_of_set_sort_remdups by simp
  finally have sl: "sorted_list_of_set (external_paths pkgs) =
      [''example.com/foo/bar'', ''golang.org/x/tools'']" .
  show ?thesis
    unfolding decode_loop_EndOfStream
    by (simp add: data_Imports_eq table_True_set sl)
qed

theorem example_external_list_witness:
  "CHR ''.'' \<notin> set (takeWhile (\<lambda>c. c \<noteq> CHR ''/'') ''apm/model'') \<and>
   enumerates [''fmt'', ''apm'', ''golang.org/x/tools'', ''apm/model'', ''example.com/foo/bar'']
     (record_package
        (record_package Map.empty
           \<lparr>ImportPath = ''apm/model'', Imports = [''example.com/foo/bar'', ''fmt''],
            TestImports = [], XTestImports = []\<rparr>)
        \<lparr>ImportPath = ''apm'', Imports = [''example.com/foo/bar''],
         TestImports = [''golang.org/x/tools''], XTestImports = []\<rparr>) \<and>
   data_Imports
     (record_package
        (record_package Map.empty
           \<lparr>ImportPath = ''apm/model'', Imports = [''example.com/foo/bar'', ''fmt''],
            TestImports = [], XTestImports = []\<rparr>)
        \<lparr>ImportPath = ''apm'', Imports = [''example.com/foo/bar''],
         TestImports = [''golang.org/x/tools''], XTestImports = []\<rparr>)
     [''fmt'', ''apm'', ''golang.org/x/tools'', ''apm/model'', ''example.com/foo/bar''] =
   [''example.com/foo/bar'', ''golang.org/x/tools'']"
proof -
  let ?A = "\<lparr>ImportPath = ''apm/model'', Imports = [''example.com/foo/bar'', ''fmt''],
            TestImports = [], XTestImports = []\<rparr>"
  let ?B = "\<lparr>ImportPath = ''apm'', Imports = [''example.com/foo/bar''],
         TestImports = [''golang.org/x/tools''], XTestImports = []\<rparr>"
  let ?order = "[''fmt'', ''apm'', ''golang.org/x/tools'', ''apm/model'', ''example.com/foo/bar'']"
  have h1: "CHR ''.'' \<notin> set (takeWhile (\<lambda>c. c \<noteq> CHR ''/'') (ImportPath ?A))"
    by simp
  have h2: "set (imports_of ?A) = {''example.com/foo/bar'', ''fmt''}"
    by (simp add: imports_of_def)
  have h3: "set (imports_of ?B) = {''example.com/foo/bar'', ''golang.org/x/tools''}"
    by (simp add: imports_of_def)
  have h4: "ImportPath ?B \<noteq> ''example.com/foo/bar''" "ImportPath ?B \<noteq> ''golang.org/x/tools''"
    by simp_all
  have h5: "[?A, ?B] = [?A, ?B] \<or> [?A, ?B] = [?B, ?A]" by simp
  obtain t where t: "decode_loop Map.empty [?A, ?B] EndOfStream = Inr t"
    and ok: "\<forall>order. enumerates order t \<longrightarrow>
        data_Imports t order = [''example.com/foo/bar'', ''golang.org/x/tools''] \<and>
        ''fmt'' \<notin> set (data_Imports t order)"
    using example_external_list [OF h1 h2 h3 h4 h5] by blast
  from t have t_eq: "t = record_package (record_package Map.empty ?A) ?B" by simp
  have "dom (record_package (record_package Map.empty ?A) ?B) = set ?order"
    unfolding dom_record_package imports_of_def by auto
  then have "enumerates ?order (record_package (record_package Map.empty ?A) ?B)"
    unfolding enumerates_def by simp
  with ok t_eq h1 show ?thesis by simp
qed

text \<open>
  C4 as stated fails when B is the package \<open>golang.org/x/tools\<close> itself, whose
  external test package imports it: the list is then \<open>[example.com/foo/bar]\<close>.
\<close>

theorem example_counterexample:
  "CHR ''.'' \<notin> set ''apm'' \<and>
   enumerates [''apm'', ''example.com/foo/bar'', ''fmt'', ''golang.org/x/tools'']
     (record_package
        (record_package Map.empty
           \<lparr>ImportPath = ''apm'', Imports = [''example.com/foo/bar'', ''fmt''],
            TestImports = [], XTestImports = []\<rparr>)
        \<lparr>ImportPath = ''golang.org/x/tools'', Imports = [''example.com/foo/bar''],
         TestImports = [], XTestImports = [''golang.org/x/tools'']\<rparr>) \<and>
   data_Imports
     (record_package
        (record_package Map.empty
           \<lparr>ImportPath = ''apm'', Imports = [''example.com/foo/bar'', ''fmt''],
            TestImports = [], XTestImports = []\<rparr>)
        \<lparr>ImportPath = ''golang.org/x/tools'', Imports = [''example.com/foo/bar''],
         TestImports = [], XTestImports = [''golang.org/x/tools'']\<rparr>)
     [''apm'', ''example.com/foo/bar'', ''fmt'', ''golang.org/x/tools''] =
   [''example.com/foo/bar'']"
proof -
  let ?t = "record_package
        (record_package Map.empty
           \<lparr>ImportPath = ''apm'', Imports = [''example.com/foo/bar'', ''fmt''],
            TestImports = [], XTestImports = []\<rparr>)
        \<lparr>ImportPath = ''golang.org/x/tools'', Imports = [''example.com/foo/bar''],
         TestImports = [], XTestImports = [''golang.org/x/tools'']\<rparr>"
  have dom: "dom ?t = {''apm'', ''example.com/foo/bar'', ''fmt'', ''golang.org/x/tools''}"
    unfolding dom_record_package imports_of_def by auto
  have vals: "?t ''apm'' = Some False" "?t ''example.com/foo/bar'' = Some True"
    "?t ''fmt'' = Some False" "?t ''golang.org/x/tools'' = Some False"
    by (simp_all add: record_package_apply imports_of_def isExternal_def)
  have "enumerates [''apm'', ''example.com/foo/bar'', ''fmt'', ''golang.org/x/tools''] ?t"
    unfolding enumerates_def dom by simp
  moreover have "data_Imports ?t
      [''apm'', ''example.com/foo/bar'', ''fmt'', ''golang.org/x/tools''] =
      [''example.com/foo/bar'']"
    by (simp add: data_Imports_def vals)
  ultimately show ?thesis by simp
qed

text \<open>
  C10: when the stream ends in \<open>io.EOF\<close>, the list is the sorted list of the set of
  paths that occur in an import list of some record, pass \<open>isExternal\<close> and are not
  the own import path of any record.  Two streams with the same set of records, so in
  particular a stream and any reordering of it, yield the same list.
\<close>

theorem external_list_characterised:
  assumes "set pkgs' = set pkgs"
  shows "\<exists>t t'. decode_loop Map.empty pkgs EndOfStream = Inr t \<and>
       decode_loop Map.empty pkgs' EndOfStream = Inr t' \<and>
       (\<forall>order order'. enumerates order t \<and> enumerates order' t' \<longrightarrow>
          data_Imports t order = sorted_list_of_set (external_paths pkgs) \<and>
          data_Imports t' order' = data_Imports t order)"
proof -
  from assms have "external_paths pkgs' = external_paths pkgs"
    by (simp add: external_paths_def)
  then show ?thesis
    by (simp add: decode_loop_EndOfStream data_Imports_eq table_True_set)
qed

theorem external_list_characterised_witness:
  "enumerates [''fmt'', ''apm'', ''golang.org/x/tools'', ''example.com/foo/bar'']
     (record_package
        (record_package Map.empty
           \<lparr>ImportPath = ''apm'', Imports = [''golang.org/x/tools'', ''fmt''],
            TestImports = [], XTestImports = []\<rparr>)
        \<lparr>ImportPath = ''golang.org/x/tools'', Imports = [''example.com/foo/bar''],
         TestImports = [], XTestImports = []\<rparr>) \<and>
   enumerates [''example.com/foo/bar'', ''golang.org/x/tools'', ''apm'', ''fmt'']
     (record_package
        (record_package Map.empty
           \<lparr>ImportPath = ''golang.org/x/tools'', Imports = [''example.com/foo/bar''],
            TestImports = [], XTestImports = []\<rparr>)
        \<lparr>ImportPath = ''apm'', Imports = [''golang.org/x/tools'', ''fmt''],
         TestImports = [], XTestImports = []\<rparr>) \<and>
   data_Imports
     (record_package
        (record_package Map.empty
           \<lparr>ImportPath = ''golang.org/x/tools'', Imports = [''example.com/foo/bar''],
            TestImports = [], XTestImports = []\<rparr>)
        \<lparr>ImportPath = ''apm'', Imports = [''golang.org/x/tools'', ''fmt''],
         TestImports = [], XTestImports = []\<rparr>)
     [''example.com/foo/bar'', ''golang.org/x/tools'', ''apm'', ''fmt''] =
   data_Imports
     (record_package
        (record_package Map.empty
           \<lparr>ImportPath = ''apm'', Imports = [''golang.org/x/tools'', ''fmt''],
            TestImports = [], XTestImports = []\<rparr>)
        \<lparr>ImportPath = ''golang.org/x/tools'', Imports = [''example.com/foo/bar''],
         TestImports = [], XTestImports = []\<rparr>)
     [''fmt'', ''apm'', ''golang.org/x/tools'', ''example.com/foo/bar''] \<and>
   data_Imports
     (record_package
        (record_package Map.empty
           \<lparr>ImportPath = ''apm'', Imports = [''golang.org/x/tools'', ''fmt''],
            TestImports = [], XTestImports = []\<rparr>)
        \<lparr>ImportPath = ''golang.org/x/tools'', Imports = [''example.com/foo/bar''],
         TestImports = [], XTestImports = []\<rparr>)
     [''fmt'', ''apm'', ''golang.org/x/tools'', ''example.com/foo/bar''] =
   [''example.com/foo/bar'']"
proof -
  let ?A = "\<lparr>ImportPath = ''apm'', Imports = [''golang.org/x/tools'', ''fmt''],
            TestImports = [], XTestImports = []\<rparr>"
  let ?B = "\<lparr>ImportPath = ''golang.org/x/tools'', Imports = [''example.com/foo/bar''],
         TestImports = [], XTestImports = []\<rparr>"
  let ?o1 = "[''fmt'', ''apm'', ''golang.org/x/tools'', ''example.com/foo/bar'']"
  let ?o2 = "[''example.com/foo/bar'', ''golang.org/x/tools'', ''apm'', ''fmt'']"
  let ?t1 = "record_package (record_package Map.empty ?A) ?B"
  let ?t2 = "record_package (record_package Map.empty ?B) ?A"
  have h: "set [?B, ?A] = set [?A, ?B]" by (simp only: list.set insert_commute)
  obtain t t' where t: "decode_loop Map.empty [?A, ?B] EndOfStream = Inr t"
    and t': "decode_loop Map.empty [?B, ?A] EndOfStream = Inr t'"
    and ok: "\<forall>order order'. enumerates order t \<and> enumerates order' t' \<longrightarrow>
          data_Imports t order = sorted_list_of_set (external_paths [?A, ?B]) \<and>
          data_Imports t' order' = data_Imports t order"
    using external_list_characterised [OF h] by blast
  from t have t_eq: "t = ?t1" by simp
  from t' have t'_eq: "t' = ?t2" by simp
  have "dom ?t1 = set ?o1" unfolding dom_record_package imports_of_def by auto
  then have e1: "enumerates ?o1 ?t1" unfolding enumerates_def by simp
  have "dom ?t2 = set ?o2" unfolding dom_record_package imports_of_def by auto
  then have e2: "enumerates ?o2 ?t2" unfolding enumerates_def by simp
  have vals: "?t1 ''apm'' = Some False" "?t1 ''example.com/foo/bar'' = Some True"
    "?t1 ''fmt'' = Some False" "?t1 ''golang.org/x/tools'' = Some False"
    by (simp_all add: record_package_apply imports_of_def isExternal_def)
  have l: "data_Imports ?t1 ?o1 = [''example.com/foo/bar'']"
    by (simp add: data_Imports_def vals)
  from ok t_eq t'_eq e1 e2 have "data_Imports ?t2 ?o2 = data_Imports ?t1 ?o1" by blast
  with e1 e2 l show ?thesis by simp
qed

section \<open>The rendered document\<close>

text \<open>
  C8, as amended: the document is the three lines of the preamble (the warning
  comment, the \<open>FROM\<close> line and the \<open>WORKDIR\<close> line), then one \<open>RUN go get -v\<close>
  line for each import of the list, in the order of the list, then an empty line,
  then the \<open>ADD\<close> line.
\<close>

theorem Execute_document:
  "Execute dockerfileTemplate imports =
     ''# Code generated by gendockerfile. DO NOT EDIT.\<newline>'' @
     ''FROM golang:latest\<newline>'' @
     ''WORKDIR /go/src/go.elastic.co/apm\<newline>'' @
     concat (map (\<lambda>importPath. ''RUN go get -v '' @ importPath @ ''\<newline>'') imports) @
     ''\<newline>'' @
     ''ADD . /go/src/go.elastic.co/apm\<newline>''"
  by (simp add: Execute_def dockerfileTemplate_def)

text \<open>
  C8 as stated fails: for the empty list the document is not the three lines of the
  preamble followed by the \<open>ADD\<close> line; it has five lines, one of which is empty.
\<close>

theorem Execute_counterexample:
  "Execute dockerfileTemplate [] \<noteq>
     ''# Code generated by gendockerfile. DO NOT EDIT.\<newline>'' @
     ''FROM golang:latest\<newline>'' @
     ''WORKDIR /go/src/go.elastic.co/apm\<newline>'' @
     ''ADD . /go/src/go.elastic.co/apm\<newline>'' \<and>
   count_list (Execute dockerfileTemplate []) (CHR ''\<newline>'') = 5"
  by (simp add: Execute_def dockerfileTemplate_def)

section \<open>The run\<close>

text \<open>
  C5: when the stream ends in a decode error, the run ends in \<open>log.Fatal\<close> with the
  file at \<open>outFile\<close> as it was, in write mode and in diff mode, and nothing is printed
  on standard output.
\<close>

theorem decode_error_aborts:
  assumes "go_list_cmd e = Started pkgs Malformed"
  shows "status (main diffFlag e) = Fatal DecodeError \<and>
         out_file_after (main diffFlag e) = out_file e \<and>
         stdout (main diffFlag e) = []"
  using assms by (simp add: main_def decode_loop_Malformed)

theorem decode_error_aborts_witness:
  "status (main False
     \<lparr>go_list_cmd = Started [\<lparr>ImportPath = ''apm'', Imports = [''golang.org/x/tools''],
                               TestImports = [], XTestImports = []\<rparr>] Malformed,
      map_order = [], out_file = Some ''FROM scratch'', create_fails = False,
      write_fails = None, diff_cmd = (\<lambda>old new. (0, []))\<rparr>) = Fatal DecodeError \<and>
   out_file_after (main False
     \<lparr>go_list_cmd = Started [\<lparr>ImportPath = ''apm'', Imports = [''golang.org/x/tools''],
                               TestImports = [], XTestImports = []\<rparr>] Malformed,
      map_order = [], out_file = Some ''FROM scratch'', create_fails = False,
      write_fails = None, diff_cmd = (\<lambda>old new. (0, []))\<rparr>) = Some ''FROM scratch''"
  using decode_error_aborts [of
     "\<lparr>go_list_cmd = Started [\<lparr>ImportPath = ''apm'', Imports = [''golang.org/x/tools''],
                               TestImports = [], XTestImports = []\<rparr>] Malformed,
      map_order = [], out_file = Some ''FROM scratch'', create_fails = False,
      write_fails = None, diff_cmd = (\<lambda>old new. (0, []))\<rparr>"
     "[\<lparr>ImportPath = ''apm'', Imports = [''golang.org/x/tools''],
                               TestImports = [], XTestImports = []\<rparr>]" False]
  by simp

text \<open>
  C6: in diff mode, when the stream ends in \<open>io.EOF\<close> and the \<open>diff\<close> utility works as
  assumed: if the file at \<open>outFile\<close> has the rendered content, the run exits with
  status 0 and prints nothing; if the file has another content, the run ends in
  \<open>log.Fatal\<close> and the report of \<open>diff\<close> is on standard output.
\<close>

theorem diff_mode_outcome:
  assumes "go_list_cmd e = Started pkgs EndOfStream" and "diff_contract (diff_cmd e)"
  shows "\<exists>t. decode_loop Map.empty pkgs EndOfStream = Inr t \<and>
     (out_file e = Some (Execute dockerfileTemplate (data_Imports t (map_order e))) \<longrightarrow>
        status (main True e) = Exit0 \<and> stdout (main True e) = []) \<and>
     (out_file e \<noteq> None \<and>
      out_file e \<noteq> Some (Execute dockerfileTemplate (data_Imports t (map_order e))) \<longrightarrow>
        status (main True e) = Fatal DiffError \<and> stdout (main True e) \<noteq> [])"
proof -
  let ?t = "foldl record_package Map.empty pkgs"
  let ?new = "Execute dockerfileTemplate (data_Imports ?t (map_order e))"
  obtain code report where d: "diff_cmd e (out_file e) ?new = (code, report)"
    by (cases "diff_cmd e (out_file e) ?new")
  from assms(2) have c1: "fst (diff_cmd e (out_file e) ?new) = 0 \<longleftrightarrow> out_file e = Some ?new"
    and c2: "out_file e = Some ?new \<longrightarrow> snd (diff_cmd e (out_file e) ?new) = []"
    and c3: "out_file e \<noteq> None \<and> out_file e \<noteq> Some ?new \<longrightarrow>
      snd (diff_cmd e (out_file e) ?new) \<noteq> []"
    unfolding diff_contract_def by blast+
  have m: "main True e =
    (if code \<noteq> 0
     then \<lparr>status = Fatal DiffError, out_file_after = out_file e, stdout = report\<rparr>
     else \<lparr>status = Exit0, out_file_after = out_file e, stdout = report\<rparr>)"
    using assms(1) d by (simp add: main_def decode_loop_EndOfStream write_or_diff_def Let_def)
  from c1 c2 c3 d m show ?thesis
    by (auto simp: decode_loop_EndOfStream)
qed

theorem diff_mode_outcome_witness:
  "diff_contract (\<lambda>old new. if old = Some new then (0, []) else (1, ''differ'')) \<and>
   status (main True
     \<lparr>go_list_cmd = Started [] EndOfStream, map_order = [], out_file = Some ''FROM scratch'',
      create_fails = False, write_fails = None,
      diff_cmd = (\<lambda>old new. if old = Some new then (0, []) else (1, ''differ''))\<rparr>) =
     Fatal DiffError \<and>
   stdout (main True
     \<lparr>go_list_cmd = Started [] EndOfStream, map_order = [], out_file = Some ''FROM scratch'',
      create_fails = False, write_fails = None,
      diff_cmd = (\<lambda>old new. if old = Some new then (0, []) else (1, ''differ''))\<rparr>) \<noteq> [] \<and>
   status (main True
     \<lparr>go_list_cmd = Started [] EndOfStream, map_order = [],
      out_file = Some (Execute dockerfileTemplate []),
      create_fails = False, write_fails = None,
      diff_cmd = (\<lambda>old new. if old = Some new then (0, []) else (1, ''differ''))\<rparr>) = Exit0 \<and>
   stdout (main True
     \<lparr>go_list_cmd = Started [] EndOfStream, map_order = [],
      out_file = Some (Execute dockerfileTemplate []),
      create_fails = False, write_fails = None,
      diff_cmd = (\<lambda>old new. if old = Some new then (0, []) else (1, ''differ''))\<rparr>) = []"
proof -
  let ?d = "\<lambda>(old :: string option) (new :: string).
    if old = Some new then (0 :: nat, []) else (1, ''differ'')"
  let ?e1 = "\<lparr>go_list_cmd = Started [] EndOfStream, map_order = [],
      out_file = Some ''FROM scratch'', create_fails = False, write_fails = None,
      diff_cmd = ?d\<rparr>"
  let ?e2 = "\<lparr>go_list_cmd = Started [] EndOfStream, map_order = [],
      out_file = Some (Execute dockerfileTemplate []),
      create_fails = False, write_fails = None, diff_cmd = ?d\<rparr>"
  have c: "diff_contract ?d" by (simp add: diff_contract_def)
  have r: "data_Imports Map.empty [] = []" by (simp add: data_Imports_def)
  have ne: "''FROM scratch'' \<noteq> Execute dockerfileTemplate []"
    by (simp add: Execute_def dockerfileTemplate_def)
  have "status (main True ?e1) = Fatal DiffError \<and> stdout (main True ?e1) \<noteq> []"
    using diff_mode_outcome [of ?e1 "[]"] c r ne by simp
  moreover have "status (main True ?e2) = Exit0 \<and> stdout (main True ?e2) = []"
    using diff_mode_outcome [of ?e2 "[]"] c r by simp
  ultimately show ?thesis using c by simp
qed

text \<open>
  C7: in diff mode the file at \<open>outFile\<close> is after the run what it was before, for
  every environment.
\<close>

theorem diff_mode_keeps_file: "out_file_after (main True e) = out_file e"
  by (simp add: main_def write_or_diff_def Let_def
      split: go_list.splits sum.splits prod.splits)

text \<open>
  C9: take two runs on the same output of \<open>go list\<close>, each with an order of the keys of
  its table.  If both are in write mode and exit with status 0, they leave the same
  content in the file at \<open>outFile\<close>, whatever the file was before and whatever the
  two orders are.  If the two runs differ in nothing but the order, they have the same
  outcome in either mode: exit status, file and standard output.
\<close>

theorem run_deterministic:
  assumes "go_list_cmd e2 = go_list_cmd e1" and "valid_order e1" and "valid_order e2"
  shows "(status (main False e1) = Exit0 \<and> status (main False e2) = Exit0 \<longrightarrow>
            out_file_after (main False e1) = out_file_after (main False e2)) \<and>
         (e2 = e1\<lparr>map_order := map_order e2\<rparr> \<longrightarrow> main diffFlag e2 = main diffFlag e1)"
proof -
  have fields: "out_file e2 = out_file e1 \<and> create_fails e2 = create_fails e1 \<and>
      write_fails e2 = write_fails e1 \<and> diff_cmd e2 = diff_cmd e1"
    if "e2 = e1\<lparr>map_order := map_order e2\<rparr>"
    using that by (cases e1, cases e2) simp
  show ?thesis
  proof (cases "go_list_cmd e1")
    case (Started pkgs fin)
    show ?thesis
    proof (cases "decode_loop Map.empty pkgs fin")
      case (Inl err)
      with Started assms(1) fields show ?thesis by (auto simp: main_def)
    next
      case (Inr t)
      with Started assms have "enumerates (map_order e1) t" and "enumerates (map_order e2) t"
        by (simp_all add: valid_order_def)
      then have same: "data_Imports t (map_order e2) = data_Imports t (map_order e1)"
        by (simp add: data_Imports_eq)
      have m1: "main d e1 = write_or_diff d e1 (data_Imports t (map_order e1))" for d
        using Started Inr by (simp add: main_def)
      have m2: "main d e2 = write_or_diff d e2 (data_Imports t (map_order e1))" for d
        using Started Inr assms(1) same by (simp add: main_def)
      have written: "out_file_after (write_or_diff False e l) =
          Some (Execute dockerfileTemplate l)"
        if "status (write_or_diff False e l) = Exit0" for e l
        using that by (simp add: write_or_diff_def Let_def split: if_splits option.splits)
      have "write_or_diff d e2 l = write_or_diff d e1 l"
        if "e2 = e1\<lparr>map_order := map_order e2\<rparr>" for d l
        using fields [OF that] by (simp add: write_or_diff_def Let_def split: prod.splits)
      with m1 m2 written show ?thesis by metis
    qed
  next
    case PipeFailed
    with assms(1) fields show ?thesis by (auto simp: main_def)
  next
    case StartFailed
    with assms(1) fields show ?thesis by (auto simp: main_def)
  qed
qed

theorem run_deterministic_witness:
  "valid_order
     \<lparr>go_list_cmd = Started [\<lparr>ImportPath = ''apm'',
          Imports = [''golang.org/x/tools'', ''fmt'', ''example.com/foo/bar''],
          TestImports = [], XTestImports = []\<rparr>] EndOfStream,
      map_order = [''golang.org/x/tools'', ''fmt'', ''example.com/foo/bar'', ''apm''],
      out_file = None, create_fails = False, write_fails = None,
      diff_cmd = (\<lambda>old new. (2, []))\<rparr> \<and>
   valid_order
     \<lparr>go_list_cmd = Started [\<lparr>ImportPath = ''apm'',
          Imports = [''golang.org/x/tools'', ''fmt'', ''example.com/foo/bar''],
          TestImports = [], XTestImports = []\<rparr>] EndOfStream,
      map_order = [''apm'', ''example.com/foo/bar'', ''fmt'', ''golang.org/x/tools''],
      out_file = Some ''FROM scratch'', create_fails = False, write_fails = None,
      diff_cmd = (\<lambda>old new. (2, []))\<rparr> \<and>
   status (main False
     \<lparr>go_list_cmd = Started [\<lparr>ImportPath = ''apm'',
          Imports = [''golang.org/x/tools'', ''fmt'', ''example.com/foo/bar''],
          TestImports = [], XTestImports = []\<rparr>] EndOfStream,
      map_order = [''golang.org/x/tools'', ''fmt'', ''example.com/foo/bar'', ''apm''],
      out_file = None, create_fails = False, write_fails = None,
      diff_cmd = (\<lambda>old new. (2, []))\<rparr>) = Exit0 \<and>
   out_file_after (main False
     \<lparr>go_list_cmd = Started [\<lparr>ImportPath = ''apm'',
          Imports = [''golang.org/x/tools'', ''fmt'', ''example.com/foo/bar''],
          TestImports = [], XTestImports = []\<rparr>] EndOfStream,
      map_order = [''golang.org/x/tools'', ''fmt'', ''example.com/foo/bar'', ''apm''],
      out_file = None, create_fails = False, write_fails = None,
      diff_cmd = (\<lambda>old new. (2, []))\<rparr>) =
   out_file_after (main False
     \<lparr>go_list_cmd = Started [\<lparr>ImportPath = ''apm'',
          Imports = [''golang.org/x/tools'', ''fmt'', ''example.com/foo/bar''],
          TestImports = [], XTestImports = []\<rparr>] EndOfStream,
      map_order = [''apm'', ''example.com/foo/bar'', ''fmt'', ''golang.org/x/tools''],
      out_file = Some ''FROM scratch'', create_fails = False, write_fails = None,
      diff_cmd = (\<lambda>old new. (2, []))\<rparr>) \<and>
   main True
     \<lparr>go_list_cmd = Started [\<lparr>ImportPath = ''apm'',
          Imports = [''golang.org/x/tools'', ''fmt'', ''example.com/foo/bar''],
          TestImports = [], XTestImports = []\<rparr>] EndOfStream,
      map_order = [''apm'', ''example.com/foo/bar'', ''fmt'', ''golang.org/x/tools''],
      out_file = None, create_fails = False, write_fails = None,
      diff_cmd = (\<lambda>old new. (2, []))\<rparr> =
   main True
     \<lparr>go_list_cmd = Started [\<lparr>ImportPath = ''apm'',
          Imports = [''golang.org/x/tools'', ''fmt'', ''example.com/foo/bar''],
          TestImports = [], XTestImports = []\<rparr>] EndOfStream,
      map_order = [''golang.org/x/tools'', ''fmt'', ''example.com/foo/bar'', ''apm''],
      out_file = None, create_fails = False, write_fails = None,
      diff_cmd = (\<lambda>old new. (2, []))\<rparr>"
proof -
  let ?pkg = "\<lparr>ImportPath = ''apm'',
          Imports = [''golang.org/x/tools'', ''fmt'', ''example.com/foo/bar''],
          TestImports = [], XTestImports = []\<rparr>"
  let ?o1 = "[''golang.org/x/tools'', ''fmt'', ''example.com/foo/bar'', ''apm'']"
  let ?o2 = "[''apm'', ''example.com/foo/bar'', ''fmt'', ''golang.org/x/tools'']"
  let ?e1 = "\<lparr>go_list_cmd = Started [\<lparr>ImportPath = ''apm'',
          Imports = [''golang.org/x/tools'', ''fmt'', ''example.com/foo/bar''],
          TestImports = [], XTestImports = []\<rparr>] EndOfStream,
      map_order = [''golang.org/x/tools'', ''fmt'', ''example.com/foo/bar'', ''apm''],
      out_file = None, create_fails = False, write_fails = None,
      diff_cmd = (\<lambda>(old :: string option) (new :: string). (2 :: nat, []))\<rparr>"
  let ?e2 = "\<lparr>go_list_cmd = Started [\<lparr>ImportPath = ''apm'',
          Imports = [''golang.org/x/tools'', ''fmt'', ''example.com/foo/bar''],
          TestImports = [], XTestImports = []\<rparr>] EndOfStream,
      map_order = [''apm'', ''example.com/foo/bar'', ''fmt'', ''golang.org/x/tools''],
      out_file = Some ''FROM scratch'', create_fails = False, write_fails = None,
      diff_cmd = (\<lambda>(old :: string option) (new :: string). (2 :: nat, []))\<rparr>"
  let ?e3 = "\<lparr>go_list_cmd = Started [\<lparr>ImportPath = ''apm'',
          Imports = [''golang.org/x/tools'', ''fmt'', ''example.com/foo/bar''],
          TestImports = [], XTestImports = []\<rparr>] EndOfStream,
      map_order = [''apm'', ''example.com/foo/bar'', ''fmt'', ''golang.org/x/tools''],
      out_file = None, create_fails = False, write_fails = None,
      diff_cmd = (\<lambda>(old :: string option) (new :: string). (2 :: nat, []))\<rparr>"
  have "dom (record_package Map.empty ?pkg) = set ?o1"
    unfolding dom_record_package imports_of_def by auto
  then have v1: "valid_order ?e1"
    by (simp add: valid_order_def enumerates_def)
  have d2: "dom (record_package Map.empty ?pkg) = set ?o2"
    unfolding dom_record_package imports_of_def by auto
  then have v2: "valid_order ?e2"
    by (simp add: valid_order_def enumerates_def)
  from d2 have v3: "valid_order ?e3"
    by (simp add: valid_order_def enumerates_def)
  have g2: "go_list_cmd ?e2 = go_list_cmd ?e1" by simp
  have g3: "go_list_cmd ?e3 = go_list_cmd ?e1" by simp
  have s1: "status (main False ?e1) = Exit0" by (simp add: main_def write_or_diff_def Let_def)
  have s2: "status (main False ?e2) = Exit0" by (simp add: main_def write_or_diff_def Let_def)
  have u: "?e3 = ?e1\<lparr>map_order := map_order ?e3\<rparr>" by simp
  from run_deterministic [OF g2 v1 v2, of False] s1 s2
  have "out_file_after (main False ?e1) = out_file_after (main False ?e2)" by blast
  moreover from run_deterministic [OF g3 v1 v3, of True] u
  have "main True ?e3 = main True ?e1" by blast
  ultimately show ?thesis using v1 v2 s1 by blast
qed

end
